theory Spec2Isabelle
  imports
    Complex_Main
    "HOL-Library.Sublist"
    "HOL-Library.Char_ord"
    "HOL-Library.List_Lexorder"
    "HOL-Library.Product_Lexorder"
begin

section \<open>Data model\<close>

text \<open>
  The dashboard (\<^verbatim>\<open>src/dashboard.py\<close>) works on one pandas DataFrame. The model starts
  after the load and after line 50 (\<^verbatim>\<open>df['SB DATE'] = pd.to_datetime(df['SB DATE'])\<close>):
  the column \<^verbatim>\<open>SB DATE\<close> holds \<^verbatim>\<open>datetime64[ns]\<close> values, that is nanoseconds since
  the epoch, or \<^verbatim>\<open>NaT\<close>. A missing cell (\<^verbatim>\<open>NaN\<close>, \<^verbatim>\<open>NaT\<close>, \<^verbatim>\<open>None\<close>) is \<open>None\<close>.
  Numeric columns (\<^verbatim>\<open>FOB\<close>, \<^verbatim>\<open>QUANTITY\<close>) are modelled as \<^verbatim>\<open>int64\<close> columns: a cell is
  an integer and a sum wraps around at 64 bits. A column that pandas holds as \<^verbatim>\<open>float64\<close>
  (one with a blank or a decimal cell) agrees with the model where its cells are integers
  and their absolute values sum to less than \<open>2 ^ 53\<close>: there every \<^verbatim>\<open>float64\<close> sum is
  exact. Decimal cells and larger sums of a \<^verbatim>\<open>float64\<close> column are outside the model.
\<close>

type_synonym timestamp = int
type_synonym date = int

definition ns_per_day :: int where
  "ns_per_day = 86400000000000"

text \<open>\<^verbatim>\<open>pd.to_datetime(d)\<close> for a \<^verbatim>\<open>datetime.date\<close> (what \<^verbatim>\<open>st.date_input\<close> returns):
  the timestamp of that day's midnight.\<close>

definition to_datetime :: "date \<Rightarrow> timestamp" where
  "to_datetime d = d * ns_per_day"

text \<open>The calendar day of a timestamp (\<^verbatim>\<open>Timestamp.date()\<close>, the daily bin of a
  \<^verbatim>\<open>Grouper(freq='D')\<close>).\<close>

definition day_of :: "timestamp \<Rightarrow> date" where
  "day_of t = t div ns_per_day"

record shipment =
  sb_date :: "timestamp option"
  port_of_loading :: "string option"
  country_of_destination :: "string option"
  port_of_discharge :: "string option"
  hsn_description :: "string option"
  fob :: "int option"
  quantity :: "int option"

text \<open>A DataFrame: the names of the columns it has, and its rows in order. A field of a
  row whose column is absent is never read: every read goes through \<open>getitem\<close>.\<close>

record dataframe =
  columns :: "string list"
  rows :: "shipment list"

datatype error = KeyError string

fun bind_err :: "error + 'a \<Rightarrow> ('a \<Rightarrow> error + 'b) \<Rightarrow> error + 'b" where
  "bind_err (Inl e) f = Inl e"
| "bind_err (Inr x) f = f x"

text \<open>\<^verbatim>\<open>df[name]\<close>: the column as a list of cells; \<^verbatim>\<open>KeyError\<close> when the frame has no such
  column.\<close>

definition getitem :: "dataframe \<Rightarrow> string \<Rightarrow> (shipment \<Rightarrow> 'a) \<Rightarrow> error + 'a list" where
  "getitem df name field =
     (if name \<in> set (columns df) then Inr (map field (rows df)) else Inl (KeyError name))"

text \<open>\<^verbatim>\<open>df[mask]\<close>: the rows whose mask entry is true, in their order; the columns stay.\<close>

definition loc_mask :: "dataframe \<Rightarrow> bool list \<Rightarrow> dataframe" where
  "loc_mask df m = df\<lparr>rows := map fst (filter snd (zip (rows df) m))\<rparr>"

text \<open>\<^verbatim>\<open>series >= ts\<close> and \<^verbatim>\<open>series <= ts\<close>: a comparison with \<^verbatim>\<open>NaT\<close> is false.\<close>

definition ge_ts :: "timestamp option list \<Rightarrow> timestamp \<Rightarrow> bool list" where
  "ge_ts col ts = map (\<lambda>c. case c of None \<Rightarrow> False | Some t \<Rightarrow> ts \<le> t) col"

definition le_ts :: "timestamp option list \<Rightarrow> timestamp \<Rightarrow> bool list" where
  "le_ts col ts = map (\<lambda>c. case c of None \<Rightarrow> False | Some t \<Rightarrow> t \<le> ts) col"

definition mask_and :: "bool list \<Rightarrow> bool list \<Rightarrow> bool list" where
  "mask_and m1 m2 = map (\<lambda>(a, b). a \<and> b) (zip m1 m2)"

text \<open>\<^verbatim>\<open>series.isin(values)\<close>: membership cell by cell; a missing cell matches a missing
  value of the list.\<close>

definition isin :: "'a option list \<Rightarrow> 'a option list \<Rightarrow> bool list" where
  "isin col vals = map (\<lambda>c. c \<in> set vals) col"

section \<open>Filter engine (main, lines 56 to 78)\<close>

text \<open>What the sidebar widgets return: two calendar dates and three selection lists
  (the options of a \<^verbatim>\<open>multiselect\<close> are the column's \<^verbatim>\<open>unique()\<close> values, a missing
  value among them).\<close>

record filter_spec =
  start_date :: date
  end_date :: date
  ports :: "string option list"
  countries :: "string option list"
  discharge_ports :: "string option list"

definition date_range_filter :: "date \<Rightarrow> date \<Rightarrow> dataframe \<Rightarrow> error + dataframe" where
  "date_range_filter start_d end_d df =
     (if ''SB DATE'' \<in> set (columns df) then
        bind_err (getitem df ''SB DATE'' sb_date) (\<lambda>lhs.
        bind_err (getitem df ''SB DATE'' sb_date) (\<lambda>rhs.
          Inr (loc_mask df (mask_and (ge_ts lhs (to_datetime start_d))
                                     (le_ts rhs (to_datetime end_d))))))
      else Inr df)"

definition loading_filter :: "string option list \<Rightarrow> dataframe \<Rightarrow> error + dataframe" where
  "loading_filter sel df =
     (if ''PORT OF LOADING'' \<in> set (columns df) then
        (if sel \<noteq> [] then
           bind_err (getitem df ''PORT OF LOADING'' port_of_loading) (\<lambda>col.
             Inr (loc_mask df (isin col sel)))
         else Inr df)
      else Inr df)"

definition destination_filter :: "string option list \<Rightarrow> dataframe \<Rightarrow> error + dataframe" where
  "destination_filter sel df =
     (if ''COUNTRY OF DESTINATION'' \<in> set (columns df) then
        (if sel \<noteq> [] then
           bind_err (getitem df ''COUNTRY OF DESTINATION'' country_of_destination) (\<lambda>col.
             Inr (loc_mask df (isin col sel)))
         else Inr df)
      else Inr df)"

definition discharge_filter :: "string option list \<Rightarrow> dataframe \<Rightarrow> error + dataframe" where
  "discharge_filter sel df =
     (if ''PORT OF DISCHARGE'' \<in> set (columns df) then
        (if sel \<noteq> [] then
           bind_err (getitem df ''PORT OF DISCHARGE'' port_of_discharge) (\<lambda>col.
             Inr (loc_mask df (isin col sel)))
         else Inr df)
      else Inr df)"

text \<open>The four steps in the order of the source; each one rebinds \<^verbatim>\<open>df\<close>.\<close>

definition apply_filters :: "dataframe \<Rightarrow> filter_spec \<Rightarrow> error + dataframe" where
  "apply_filters df spec =
     bind_err (date_range_filter (start_date spec) (end_date spec) df) (\<lambda>df1.
     bind_err (loading_filter (ports spec) df1) (\<lambda>df2.
     bind_err (destination_filter (countries spec) df2) (\<lambda>df3.
       discharge_filter (discharge_ports spec) df3)))"

subsection \<open>What the mask steps keep\<close>

text \<open>The mask of lines 59 and 60 on one record: its timestamp lies between the midnights
  of the two chosen days; a missing date fails.\<close>

definition date_constraint :: "filter_spec \<Rightarrow> shipment \<Rightarrow> bool" where
  "date_constraint spec r =
     (case sb_date r of None \<Rightarrow> False
      | Some t \<Rightarrow> to_datetime (start_date spec) \<le> t \<and> t \<le> to_datetime (end_date spec))"

text \<open>The four masks of lines 59 to 78 on one record, each behind the guards of its step
  (the column is present; the selection list is not empty).\<close>

definition mask_keeps :: "dataframe \<Rightarrow> filter_spec \<Rightarrow> shipment \<Rightarrow> bool" where
  "mask_keeps df spec r =
     ((''SB DATE'' \<in> set (columns df) \<longrightarrow> date_constraint spec r) \<and>
      (''PORT OF LOADING'' \<in> set (columns df) \<and> ports spec \<noteq> [] \<longrightarrow>
         port_of_loading r \<in> set (ports spec)) \<and>
      (''COUNTRY OF DESTINATION'' \<in> set (columns df) \<and> countries spec \<noteq> [] \<longrightarrow>
         country_of_destination r \<in> set (countries spec)) \<and>
      (''PORT OF DISCHARGE'' \<in> set (columns df) \<and> discharge_ports spec \<noteq> [] \<longrightarrow>
         port_of_discharge r \<in> set (discharge_ports spec)))"

subsection \<open>The filter contract in the words of the specification\<close>

text \<open>The date range as the specification words it, inclusive on both ends at the
  granularity of days: the record's calendar day lies between the two chosen days, whatever
  its time of day.\<close>

definition within_days :: "filter_spec \<Rightarrow> shipment \<Rightarrow> bool" where
  "within_days spec r =
     (case sb_date r of None \<Rightarrow> False
      | Some t \<Rightarrow> start_date spec \<le> day_of t \<and> day_of t \<le> end_date spec)"

text \<open>A constraint is active when its column is present and, for a categorical dimension,
  the allowed set is not empty. A record satisfies the spec when it passes every active
  constraint: the whole-day date range, and membership in each allowed set.\<close>

definition satisfies :: "dataframe \<Rightarrow> filter_spec \<Rightarrow> shipment \<Rightarrow> bool" where
  "satisfies df spec r =
     ((''SB DATE'' \<in> set (columns df) \<longrightarrow> within_days spec r) \<and>
      (''PORT OF LOADING'' \<in> set (columns df) \<and> ports spec \<noteq> [] \<longrightarrow>
         port_of_loading r \<in> set (ports spec)) \<and>
      (''COUNTRY OF DESTINATION'' \<in> set (columns df) \<and> countries spec \<noteq> [] \<longrightarrow>
         country_of_destination r \<in> set (countries spec)) \<and>
      (''PORT OF DISCHARGE'' \<in> set (columns df) \<and> discharge_ports spec \<noteq> [] \<longrightarrow>
         port_of_discharge r \<in> set (discharge_ports spec)))"

text \<open>No date narrowing beyond the data's own first and last day, and empty selections on
  the three categorical dimensions: the spec with every constraint absent.\<close>

definition unrestricted :: "dataframe \<Rightarrow> filter_spec \<Rightarrow> bool" where
  "unrestricted df spec =
     ((\<forall>r \<in> set (rows df). \<forall>t. sb_date r = Some t \<longrightarrow>
          start_date spec \<le> day_of t \<and> day_of t \<le> end_date spec) \<and>
      ports spec = [] \<and> countries spec = [] \<and> discharge_ports spec = [])"

section \<open>Aggregation pipeline\<close>

text \<open>The value of a 64-bit signed integer after an addition that overflows: the
  result modulo \<open>2 ^ 64\<close>, read as signed.\<close>

definition wrap_int64 :: "int \<Rightarrow> int" where
  "wrap_int64 x = (x + 2 ^ 63) mod 2 ^ 64 - 2 ^ 63"

text \<open>\<^verbatim>\<open>Series.sum()\<close> and the \<^verbatim>\<open>sum()\<close> of a group: missing values are skipped
  (\<^verbatim>\<open>skipna=True\<close>, \<^verbatim>\<open>min_count=0\<close>), so the sum of nothing is 0; the additions wrap
  around, which leaves the exact sum modulo \<open>2 ^ 64\<close>.\<close>

definition series_sum :: "int option list \<Rightarrow> int" where
  "series_sum col = wrap_int64 (sum_list (List.map_filter id col))"

text \<open>What a numeric cell adds to a sum: a missing cell adds 0.\<close>

definition cell_value :: "int option \<Rightarrow> int" where
  "cell_value c = (case c of None \<Rightarrow> 0 | Some v \<Rightarrow> v)"

text \<open>The exactness condition on the \<^verbatim>\<open>FOB\<close> column of a view: the absolute values sum to
  less than \<open>2 ^ 53\<close>. Then no \<^verbatim>\<open>int64\<close> sum over records of the view wraps around and no
  \<^verbatim>\<open>float64\<close> sum of them rounds.\<close>

definition fob_exact :: "dataframe \<Rightarrow> bool" where
  "fob_exact df = (sum_list (map (\<lambda>r. \<bar>cell_value (fob r)\<bar>) (rows df)) < 2 ^ 53)"

text \<open>\<^verbatim>\<open>Series.mean()\<close>: the mean of the present values, \<^verbatim>\<open>NaN\<close> when there is none. The
  quotient is the exact rational; the code rounds it to \<^verbatim>\<open>float64\<close>.\<close>

definition series_mean :: "int option list \<Rightarrow> rat option" where
  "series_mean col =
     (case List.map_filter id col of
        [] \<Rightarrow> None
      | x # xs \<Rightarrow> Some (of_int (sum_list (x # xs)) / of_nat (length (x # xs))))"

text \<open>\<^verbatim>\<open>Series.unique()\<close> order: the distinct values in order of first appearance.\<close>

fun unique :: "'a list \<Rightarrow> 'a list" where
  "unique [] = []"
| "unique (x # xs) = x # filter (\<lambda>y. y \<noteq> x) (unique xs)"

text \<open>\<^verbatim>\<open>Series.nunique()\<close>: the number of distinct present values (\<^verbatim>\<open>dropna=True\<close>).\<close>

definition nunique :: "'a option list \<Rightarrow> nat" where
  "nunique col = length (unique (List.map_filter id col))"

text \<open>\<^verbatim>\<open>df.groupby(key)\<close> with the defaults \<^verbatim>\<open>sort=True\<close> and \<^verbatim>\<open>dropna=True\<close>: one group
  for each distinct present key, in ascending key order; a group holds the rows with that
  key. A row whose key is missing is in no group.\<close>

definition groupby :: "(shipment \<Rightarrow> 'k option) \<Rightarrow> shipment list \<Rightarrow> ('k::linorder \<times> shipment list) list" where
  "groupby key rs =
     map (\<lambda>k. (k, filter (\<lambda>r. key r = Some k) rs)) (sort (unique (List.map_filter key rs)))"

text \<open>The key of a two-column \<^verbatim>\<open>groupby\<close>: missing when either part is.\<close>

definition key2 :: "(shipment \<Rightarrow> 'a option) \<Rightarrow> (shipment \<Rightarrow> 'b option) \<Rightarrow> shipment \<Rightarrow> ('a \<times> 'b) option" where
  "key2 f g r =
     (case f r of None \<Rightarrow> None
      | Some a \<Rightarrow> (case g r of None \<Rightarrow> None | Some b \<Rightarrow> Some (a, b)))"

text \<open>\<^verbatim>\<open>Series.nlargest(n)\<close> (\<^verbatim>\<open>keep='first'\<close>): the n largest values in descending order,
  equal values in their order of appearance.\<close>

definition nlargest :: "nat \<Rightarrow> ('k \<times> int) list \<Rightarrow> ('k \<times> int) list" where
  "nlargest n s = take n (sort_key (\<lambda>(k, v). - v) s)"

text \<open>\<^verbatim>\<open>Series.value_counts()\<close>: the count of each present value, largest count first;
  the order of equal counts is taken as that of first appearance.\<close>

definition value_counts :: "'a option list \<Rightarrow> ('a \<times> int) list" where
  "value_counts col =
     (let vs = List.map_filter id col
      in sort_key (\<lambda>(k, c). - c) (map (\<lambda>k. (k, int (count_list vs k))) (unique vs)))"

text \<open>\<^verbatim>\<open>groupby(pd.Grouper(key=..., freq='D')).size()\<close>: rows with a missing date are
  dropped; the bins are the calendar days from the day of the earliest date to the day of
  the latest, each labelled by its midnight, an empty bin with size 0. No date, no bin.\<close>

definition grouper_daily_size :: "timestamp option list \<Rightarrow> (timestamp \<times> nat) list" where
  "grouper_daily_size col =
     (case List.map_filter id col of
        [] \<Rightarrow> []
      | t # ts \<Rightarrow>
          map (\<lambda>d. (to_datetime d, length (filter (\<lambda>u. day_of u = d) (t # ts))))
              [day_of (fold min ts t) .. day_of (fold max ts t)])"

text \<open>A \<^verbatim>\<open>groupby\<close> key or a selected column that the frame lacks: \<^verbatim>\<open>KeyError\<close>. (One
  case is outside the model: given a list of two key names that are not both columns and a
  frame of exactly two rows, pandas takes the list as the rows' group labels and returns a
  table. This concerns \<open>compute_port_trends\<close> and \<open>compute_product_trends\<close> on a frame that
  lacks a key column, where the specification leaves the aggregation undefined.)\<close>

definition require_column :: "dataframe \<Rightarrow> string \<Rightarrow> error + unit" where
  "require_column df name = (if name \<in> set (columns df) then Inr () else Inl (KeyError name))"

definition compute_shipment_counts :: "dataframe \<Rightarrow> error + (timestamp \<times> nat) list" where
  "compute_shipment_counts df =
     bind_err (getitem df ''SB DATE'' sb_date) (\<lambda>col. Inr (grouper_daily_size col))"

definition compute_port_trends :: "dataframe \<Rightarrow> error + ((timestamp \<times> string) \<times> int) list" where
  "compute_port_trends df =
     bind_err (require_column df ''SB DATE'') (\<lambda>_.
     bind_err (require_column df ''PORT OF LOADING'') (\<lambda>_.
     bind_err (require_column df ''FOB'') (\<lambda>_.
       Inr (map (\<lambda>(k, g). (k, series_sum (map fob g)))
              (groupby (key2 sb_date port_of_loading) (rows df))))))"

definition compute_product_fob :: "dataframe \<Rightarrow> error + (string \<times> int) list" where
  "compute_product_fob df =
     bind_err (require_column df ''HSN_DESCRIPTION'') (\<lambda>_.
     bind_err (require_column df ''FOB'') (\<lambda>_.
       Inr (nlargest 10 (map (\<lambda>(k, g). (k, series_sum (map fob g)))
              (groupby hsn_description (rows df))))))"

definition compute_product_trends :: "dataframe \<Rightarrow> error + ((timestamp \<times> string) \<times> nat) list" where
  "compute_product_trends df =
     bind_err (require_column df ''SB DATE'') (\<lambda>_.
     bind_err (require_column df ''HSN_DESCRIPTION'') (\<lambda>_.
       Inr (map (\<lambda>(k, g). (k, length g))
              (groupby (key2 sb_date hsn_description) (rows df)))))"

definition compute_product_counts :: "dataframe \<Rightarrow> error + (string \<times> int) list" where
  "compute_product_counts df =
     bind_err (getitem df ''HSN_DESCRIPTION'' hsn_description) (\<lambda>col.
       Inr (nlargest 10 (value_counts col)))"

definition compute_total_products :: "dataframe \<Rightarrow> error + nat" where
  "compute_total_products df =
     bind_err (getitem df ''HSN_DESCRIPTION'' hsn_description) (\<lambda>col. Inr (nunique col))"

text \<open>main, line 139: \<^verbatim>\<open>df.groupby('HSN_DESCRIPTION')['QUANTITY'].sum().nlargest(10)\<close>.\<close>

definition quantity_data :: "dataframe \<Rightarrow> error + (string \<times> int) list" where
  "quantity_data df =
     bind_err (require_column df ''HSN_DESCRIPTION'') (\<lambda>_.
     bind_err (require_column df ''QUANTITY'') (\<lambda>_.
       Inr (nlargest 10 (map (\<lambda>(k, g). (k, series_sum (map quantity g)))
              (groupby hsn_description (rows df))))))"

text \<open>main, lines 118 to 122: \<^verbatim>\<open>df.shape[0]\<close>, \<^verbatim>\<open>df['FOB'].mean()\<close>, \<^verbatim>\<open>df['FOB'].sum()\<close>.\<close>

definition total_shipments :: "dataframe \<Rightarrow> nat" where
  "total_shipments df = length (rows df)"

definition average_fob :: "dataframe \<Rightarrow> error + rat option" where
  "average_fob df = bind_err (getitem df ''FOB'' fob) (\<lambda>col. Inr (series_mean col))"

definition total_fob :: "dataframe \<Rightarrow> error + int" where
  "total_fob df = bind_err (getitem df ''FOB'' fob) (\<lambda>col. Inr (series_sum col))"

text \<open>The view without the records whose \<^verbatim>\<open>HSN_DESCRIPTION\<close> is missing.\<close>

definition dropna_hsn :: "dataframe \<Rightarrow> dataframe" where
  "dropna_hsn df = df\<lparr>rows := filter (\<lambda>r. hsn_description r \<noteq> None) (rows df)\<rparr>"

text \<open>The per-product FOB sums before the cut to ten.\<close>

definition product_fob_sums :: "dataframe \<Rightarrow> (string \<times> int) list" where
  "product_fob_sums df =
     map (\<lambda>(k, g). (k, series_sum (map fob g))) (groupby hsn_description (rows df))"

section \<open>Example data\<close>

definition all_columns :: "string list" where
  "all_columns = [''SB DATE'', ''PORT OF LOADING'', ''COUNTRY OF DESTINATION'',
     ''PORT OF DISCHARGE'', ''HSN_DESCRIPTION'', ''FOB'', ''QUANTITY'']"

text \<open>Day 19723 is 2024-01-01. A shipment of a product on a day, at a time of day given in
  hours, between fixed ports.\<close>

definition shipment_at :: "date \<Rightarrow> int \<Rightarrow> string \<Rightarrow> string \<Rightarrow> int \<Rightarrow> shipment" where
  "shipment_at d h port product v =
     \<lparr>sb_date = Some (to_datetime d + h * 3600000000000),
      port_of_loading = Some port,
      country_of_destination = Some ''KENYA'',
      port_of_discharge = Some ''MOMBASA'',
      hsn_description = Some product,
      fob = Some v,
      quantity = Some 1\<rparr>"

definition scenario_df :: dataframe where
  "scenario_df = \<lparr>columns = all_columns,
     rows = [shipment_at 19723 0 ''A'' ''TEA'' 100, shipment_at 19724 0 ''B'' ''RICE'' 200]\<rparr>"

definition scenario_spec :: filter_spec where
  "scenario_spec = \<lparr>start_date = 19723, end_date = 19723, ports = [], countries = [],
     discharge_ports = []\<rparr>"

text \<open>A spec with every constraint active.\<close>

definition selection_spec :: filter_spec where
  "selection_spec = \<lparr>start_date = 19723, end_date = 19724, ports = [Some ''B''],
     countries = [Some ''KENYA''], discharge_ports = [Some ''MOMBASA'', Some ''DAR ES SALAAM'']\<rparr>"

definition bare_df :: dataframe where
  "bare_df = \<lparr>columns = [''HSN_DESCRIPTION'', ''FOB''],
     rows = [shipment_at 19723 0 ''A'' ''TEA'' 100, shipment_at 19724 0 ''B'' ''RICE'' 200]\<rparr>"

definition afternoon_df :: dataframe where
  "afternoon_df = \<lparr>columns = all_columns, rows = [shipment_at 19723 14 ''A'' ''TEA'' 100]\<rparr>"

definition undated_df :: dataframe where
  "undated_df = \<lparr>columns = all_columns,
     rows = [shipment_at 19723 0 ''A'' ''TEA'' 100,
             (shipment_at 19723 0 ''B'' ''RICE'' 200)\<lparr>sb_date := None\<rparr>]\<rparr>"

definition gap_df :: dataframe where
  "gap_df = \<lparr>columns = all_columns,
     rows = [shipment_at 19723 9 ''A'' ''TEA'' 100, shipment_at 19725 0 ''B'' ''RICE'' 200,
             shipment_at 19723 0 ''A'' ''TEA'' 50]\<rparr>"

definition gap_spec :: filter_spec where
  "gap_spec = \<lparr>start_date = 19723, end_date = 19725, ports = [], countries = [],
     discharge_ports = []\<rparr>"

definition empty_view :: dataframe where
  "empty_view = \<lparr>columns = all_columns, rows = []\<rparr>"

definition late_spec :: filter_spec where
  "late_spec = \<lparr>start_date = 19730, end_date = 19731, ports = [], countries = [],
     discharge_ports = []\<rparr>"

text \<open>Eleven products, one shipment each, with the given FOB values.\<close>

definition eleven_products :: "int list \<Rightarrow> dataframe" where
  "eleven_products vs =
     \<lparr>columns = all_columns,
      rows = map (\<lambda>(p, v). shipment_at 19723 0 ''A'' p v)
        (zip [''P01'', ''P02'', ''P03'', ''P04'', ''P05'', ''P06'', ''P07'', ''P08'', ''P09'',
              ''P10'', ''P11''] vs)\<rparr>"

text \<open>Two products with one shipment of FOB \<open>2 ^ 62\<close> each.\<close>

definition huge_df :: dataframe where
  "huge_df = \<lparr>columns = all_columns,
     rows = [shipment_at 19723 0 ''A'' ''TEA'' 4611686018427387904,
             shipment_at 19723 0 ''A'' ''RICE'' 4611686018427387904]\<rparr>"

text \<open>One shipment of FOB 5 whose product description is blank.\<close>

definition blank_df :: dataframe where
  "blank_df = \<lparr>columns = all_columns,
     rows = [(shipment_at 19723 0 ''A'' ''TEA'' 5)\<lparr>hsn_description := None\<rparr>]\<rparr>"

section \<open>Filter engine: helper lemmas\<close>

lemma mask_filter: "map fst (filter snd (zip xs (map P xs))) = filter P xs"
  by (induction xs) auto

lemma loc_mask_map: "loc_mask df (map P (rows df)) = df\<lparr>rows := filter P (rows df)\<rparr>"
  by (simp add: loc_mask_def mask_filter)

lemma mask_and_map: "mask_and (map P xs) (map Q xs) = map (\<lambda>x. P x \<and> Q x) xs"
  by (induction xs) (auto simp: mask_and_def)

lemma date_range_filter_eq:
  "date_range_filter s e df =
     Inr (df\<lparr>rows := filter (\<lambda>r. ''SB DATE'' \<in> set (columns df) \<longrightarrow>
        (case sb_date r of None \<Rightarrow> False | Some t \<Rightarrow> to_datetime s \<le> t \<and> t \<le> to_datetime e))
        (rows df)\<rparr>)"
proof (cases "''SB DATE'' \<in> set (columns df)")
  case True
  have "mask_and (ge_ts (map sb_date (rows df)) (to_datetime s))
                 (le_ts (map sb_date (rows df)) (to_datetime e)) =
        map (\<lambda>r. case sb_date r of None \<Rightarrow> False
                  | Some t \<Rightarrow> to_datetime s \<le> t \<and> t \<le> to_datetime e) (rows df)"
    by (simp add: ge_ts_def le_ts_def mask_and_map comp_def split: option.splits cong: map_cong)
  with True show ?thesis
    by (simp add: date_range_filter_def getitem_def loc_mask_map)
next
  case False
  then show ?thesis by (simp add: date_range_filter_def)
qed

lemma categorical_mask:
  "loc_mask df (isin (map f (rows df)) sel) = df\<lparr>rows := filter (\<lambda>r. f r \<in> set sel) (rows df)\<rparr>"
  by (simp add: isin_def comp_def loc_mask_map)

lemma loading_filter_eq:
  "loading_filter sel df =
     Inr (df\<lparr>rows := filter (\<lambda>r. ''PORT OF LOADING'' \<in> set (columns df) \<and> sel \<noteq> [] \<longrightarrow>
        port_of_loading r \<in> set sel) (rows df)\<rparr>)"
  by (simp add: loading_filter_def getitem_def categorical_mask)

lemma destination_filter_eq:
  "destination_filter sel df =
     Inr (df\<lparr>rows := filter (\<lambda>r. ''COUNTRY OF DESTINATION'' \<in> set (columns df) \<and> sel \<noteq> [] \<longrightarrow>
        country_of_destination r \<in> set sel) (rows df)\<rparr>)"
  by (simp add: destination_filter_def getitem_def categorical_mask)

lemma discharge_filter_eq:
  "discharge_filter sel df =
     Inr (df\<lparr>rows := filter (\<lambda>r. ''PORT OF DISCHARGE'' \<in> set (columns df) \<and> sel \<noteq> [] \<longrightarrow>
        port_of_discharge r \<in> set sel) (rows df)\<rparr>)"
  by (simp add: discharge_filter_def getitem_def categorical_mask)

lemma apply_filters_eq:
  "apply_filters df spec = Inr (df\<lparr>rows := filter (mask_keeps df spec) (rows df)\<rparr>)"
proof -
  have "filter (mask_keeps df spec) (rows df) =
        filter (\<lambda>r. ''PORT OF DISCHARGE'' \<in> set (columns df) \<and> discharge_ports spec \<noteq> [] \<longrightarrow>
                  port_of_discharge r \<in> set (discharge_ports spec))
        (filter (\<lambda>r. ''COUNTRY OF DESTINATION'' \<in> set (columns df) \<and> countries spec \<noteq> [] \<longrightarrow>
                  country_of_destination r \<in> set (countries spec))
        (filter (\<lambda>r. ''PORT OF LOADING'' \<in> set (columns df) \<and> ports spec \<noteq> [] \<longrightarrow>
                  port_of_loading r \<in> set (ports spec))
        (filter (\<lambda>r. ''SB DATE'' \<in> set (columns df) \<longrightarrow> date_constraint spec r) (rows df))))"
    unfolding filter_filter by (rule filter_cong) (auto simp: mask_keeps_def)
  then show ?thesis
    by (simp add: apply_filters_def date_range_filter_eq loading_filter_eq
        destination_filter_eq discharge_filter_eq date_constraint_def)
qed

lemma day_of_to_datetime: "day_of (to_datetime d) = d"
  by (simp add: day_of_def to_datetime_def ns_per_day_def)

lemma le_day_of: "to_datetime d \<le> t \<longleftrightarrow> d \<le> day_of t"
  unfolding to_datetime_def day_of_def ns_per_day_def by linarith

lemma le_midnight: "t \<le> to_datetime d \<longleftrightarrow> day_of t < d \<or> t = to_datetime d"
  unfolding to_datetime_def day_of_def ns_per_day_def by linarith

text \<open>What the source's range test is in days: inclusive at the start at any time of
  day, inclusive at the end only at the end day's midnight.\<close>

lemma date_constraint_days:
  "date_constraint spec r \<longleftrightarrow>
     (\<exists>t. sb_date r = Some t \<and> start_date spec \<le> day_of t \<and>
        (day_of t < end_date spec \<or> t = to_datetime (end_date spec)))"
  by (auto simp: date_constraint_def le_day_of le_midnight split: option.splits)

lemma date_constraint_within_days: "date_constraint spec r \<Longrightarrow> within_days spec r"
  by (auto simp: date_constraint_days within_days_def day_of_to_datetime)

lemmas example_defs = scenario_df_def scenario_spec_def selection_spec_def bare_df_def afternoon_df_def
  undated_df_def all_columns_def shipment_at_def to_datetime_def day_of_def ns_per_day_def

section \<open>Filter engine: the claims\<close>

text \<open>
  C1. The claim: a record belongs to the Filtered View if and only if it satisfies every
  active constraint. Here the only record of the dataset, a shipment at 14:00 on
  2024-01-01, satisfies every constraint of the range from 2024-01-01 to 2024-01-01 with no
  selection, and the Filtered View is empty: the end of the range is tested against the
  midnight that opens the end day.
\<close>

theorem end_day_record_satisfies_not_kept:
  "shipment_at 19723 14 ''A'' ''TEA'' 100 \<in> set (rows afternoon_df) \<and>
   satisfies afternoon_df scenario_spec (shipment_at 19723 14 ''A'' ''TEA'' 100) \<and>
   apply_filters afternoon_df scenario_spec = Inr (afternoon_df\<lparr>rows := []\<rparr>)"
  by (simp add: apply_filters_eq mask_keeps_def satisfies_def date_constraint_def
      within_days_def example_defs)

text \<open>So the equivalence of the claim is false at this dataset and spec.\<close>

theorem end_day_record_satisfies_not_kept_witness:
  "\<not> (\<forall>view r. apply_filters afternoon_df scenario_spec = Inr view \<longrightarrow>
        (r \<in> set (rows view) \<longleftrightarrow>
           r \<in> set (rows afternoon_df) \<and> satisfies afternoon_df scenario_spec r))"
proof
  assume *: "\<forall>view r. apply_filters afternoon_df scenario_spec = Inr view \<longrightarrow>
        (r \<in> set (rows view) \<longleftrightarrow>
           r \<in> set (rows afternoon_df) \<and> satisfies afternoon_df scenario_spec r)"
  from end_day_record_satisfies_not_kept * [rule_format,
      of "afternoon_df\<lparr>rows := []\<rparr>" "shipment_at 19723 14 ''A'' ''TEA'' 100"]
  show False by simp
qed

text \<open>
  What holds of the source for every dataset and spec: the four sequential steps keep
  exactly the records that pass the four masks together; every record of the Filtered View
  is a record of the dataset that satisfies every active constraint; and the view holds all
  such records when no record on the range's end day carries a time of day.
\<close>

lemma filtered_view_masks:
  "apply_filters df spec = Inr (df\<lparr>rows := filter (mask_keeps df spec) (rows df)\<rparr>) \<and>
   (\<forall>view r. apply_filters df spec = Inr view \<longrightarrow>
      (r \<in> set (rows view) \<longleftrightarrow> r \<in> set (rows df) \<and> mask_keeps df spec r))"
  by (auto simp: apply_filters_eq)

lemma mask_keeps_satisfies: "mask_keeps df spec r \<Longrightarrow> satisfies df spec r"
  by (auto simp: mask_keeps_def satisfies_def date_constraint_within_days)

lemma satisfies_mask_keeps:
  assumes "satisfies df spec r"
    and "''SB DATE'' \<in> set (columns df) \<Longrightarrow>
      \<forall>t. sb_date r = Some t \<and> day_of t = end_date spec \<longrightarrow> t = to_datetime (end_date spec)"
  shows "mask_keeps df spec r"
proof -
  have "date_constraint spec r" if col: "''SB DATE'' \<in> set (columns df)"
  proof -
    from assms(1) col have "within_days spec r" by (simp add: satisfies_def)
    then obtain t where t: "sb_date r = Some t" "start_date spec \<le> day_of t"
        "day_of t \<le> end_date spec"
      by (auto simp: within_days_def split: option.splits)
    with assms(2) [OF col] have "day_of t < end_date spec \<or> t = to_datetime (end_date spec)"
      by auto
    with t show ?thesis by (auto simp: date_constraint_days)
  qed
  with assms(1) show ?thesis by (simp add: mask_keeps_def satisfies_def)
qed

lemma filtered_view_sound:
  "apply_filters df spec = Inr view \<Longrightarrow> r \<in> set (rows view) \<Longrightarrow>
     r \<in> set (rows df) \<and> satisfies df spec r"
  by (auto simp: apply_filters_eq mask_keeps_satisfies)

lemma filtered_view_complete_off_end_day:
  assumes "''SB DATE'' \<in> set (columns df) \<Longrightarrow>
      \<forall>r \<in> set (rows df). \<forall>t. sb_date r = Some t \<and> day_of t = end_date spec \<longrightarrow>
        t = to_datetime (end_date spec)"
  shows "apply_filters df spec = Inr (df\<lparr>rows := filter (satisfies df spec) (rows df)\<rparr>)"
proof -
  have "mask_keeps df spec r = satisfies df spec r" if "r \<in> set (rows df)" for r
    using that assms mask_keeps_satisfies [of df spec r] satisfies_mask_keeps [of df spec r]
    by blast
  then have "filter (mask_keeps df spec) (rows df) = filter (satisfies df spec) (rows df)"
    by (simp cong: filter_cong)
  then show ?thesis by (simp add: apply_filters_eq)
qed

text \<open>The scenario dataset, all dates at midnight, under a spec with all four constraints
  active: the second record satisfies all of them, the first fails the port of loading.\<close>

lemma filtered_view_scenario:
  "apply_filters scenario_df selection_spec =
     Inr (scenario_df\<lparr>rows := [shipment_at 19724 0 ''B'' ''RICE'' 200]\<rparr>) \<and>
   satisfies scenario_df selection_spec (shipment_at 19724 0 ''B'' ''RICE'' 200) \<and>
   \<not> satisfies scenario_df selection_spec (shipment_at 19723 0 ''A'' ''TEA'' 100)"
  by (simp add: apply_filters_eq mask_keeps_def satisfies_def date_constraint_def
      within_days_def example_defs)

text \<open>
  C8. For every dataset and filter spec the filters return a view (never an error) whose
  rows are a subsequence of the dataset's rows: the surviving records are the same records,
  in the same relative order, and the columns are those of the dataset.
\<close>

theorem filtered_view_subsequence:
  "\<exists>view. apply_filters df spec = Inr view \<and> subseq (rows view) (rows df) \<and>
     columns view = columns df"
  by (simp add: apply_filters_eq)

text \<open>
  C7. When the column a filter depends on is absent from the dataset, that step returns the
  frame as it is, the whole filter equals the composition of the three remaining steps, and
  the filters never raise: no column is read without the guard of its presence.
\<close>

theorem absent_column_noop:
  "(''SB DATE'' \<notin> set (columns df) \<longrightarrow>
      date_range_filter (start_date spec) (end_date spec) df = Inr df \<and>
      apply_filters df spec =
        bind_err (loading_filter (ports spec) df) (\<lambda>df2.
        bind_err (destination_filter (countries spec) df2) (\<lambda>df3.
          discharge_filter (discharge_ports spec) df3))) \<and>
   (''PORT OF LOADING'' \<notin> set (columns df) \<longrightarrow>
      loading_filter (ports spec) df = Inr df \<and>
      apply_filters df spec =
        bind_err (date_range_filter (start_date spec) (end_date spec) df) (\<lambda>df1.
        bind_err (destination_filter (countries spec) df1) (\<lambda>df3.
          discharge_filter (discharge_ports spec) df3))) \<and>
   (''COUNTRY OF DESTINATION'' \<notin> set (columns df) \<longrightarrow>
      destination_filter (countries spec) df = Inr df \<and>
      apply_filters df spec =
        bind_err (date_range_filter (start_date spec) (end_date spec) df) (\<lambda>df1.
        bind_err (loading_filter (ports spec) df1) (\<lambda>df2.
          discharge_filter (discharge_ports spec) df2))) \<and>
   (''PORT OF DISCHARGE'' \<notin> set (columns df) \<longrightarrow>
      discharge_filter (discharge_ports spec) df = Inr df \<and>
      apply_filters df spec =
        bind_err (date_range_filter (start_date spec) (end_date spec) df) (\<lambda>df1.
        bind_err (loading_filter (ports spec) df1) (\<lambda>df2.
          destination_filter (countries spec) df2))) \<and>
   (\<exists>view. apply_filters df spec = Inr view)"
  by (simp add: apply_filters_def date_range_filter_eq loading_filter_eq
        destination_filter_eq discharge_filter_eq)

text \<open>A frame with none of the four filter columns passes through unchanged, whatever the
  spec selects.\<close>

theorem absent_column_noop_witness:
  "''SB DATE'' \<notin> set (columns bare_df) \<and> ''PORT OF LOADING'' \<notin> set (columns bare_df) \<and>
   ''COUNTRY OF DESTINATION'' \<notin> set (columns bare_df) \<and>
   ''PORT OF DISCHARGE'' \<notin> set (columns bare_df) \<and>
   apply_filters bare_df selection_spec = Inr bare_df"
  using absent_column_noop [of bare_df selection_spec]
  by (simp add: example_defs loading_filter_def destination_filter_def discharge_filter_def)

text \<open>
  C2. The claim: a record whose date falls on the calendar day of the range's end appears
  in the Filtered View whatever its time of day. The source compares the full timestamp
  with the midnight that opens the end day, so a shipment at 14:00 on 2024-01-01 is dropped
  by the range from 2024-01-01 to 2024-01-01, although its day is both the start and the
  end day.
\<close>

theorem end_day_afternoon_dropped:
  "rows afternoon_df = [shipment_at 19723 14 ''A'' ''TEA'' 100] \<and>
   within_days scenario_spec (shipment_at 19723 14 ''A'' ''TEA'' 100) \<and>
   apply_filters afternoon_df scenario_spec = Inr (afternoon_df\<lparr>rows := []\<rparr>)"
  by (simp add: apply_filters_eq mask_keeps_def date_constraint_def within_days_def example_defs)

text \<open>
  C3, as stated, fails: with the range set to the data's own first and last day and no
  selection, a record whose date is missing is removed, since a comparison with a missing
  date is false.
\<close>

theorem unrestricted_not_identity:
  "unrestricted undated_df scenario_spec \<and>
   apply_filters undated_df scenario_spec \<noteq> Inr undated_df"
  by (simp add: apply_filters_eq mask_keeps_def date_constraint_def unrestricted_def example_defs)

text \<open>
  C3, amended. For every dataset that has no date column, or whose records all carry a
  date, those on the range's end day without a time of day, a spec with every constraint
  absent (a range not narrower than the data's own days, empty selections) returns the
  dataset itself; and, for every dataset, an empty selection on a categorical dimension
  restricts nothing.
\<close>

theorem unrestricted_identity:
  "(unrestricted df spec \<and>
    (''SB DATE'' \<in> set (columns df) \<longrightarrow>
       (\<forall>r \<in> set (rows df). \<exists>t. sb_date r = Some t \<and>
          (day_of t = end_date spec \<longrightarrow> t = to_datetime (end_date spec)))) \<longrightarrow>
    apply_filters df spec = Inr df) \<and>
   loading_filter [] df = Inr df \<and>
   destination_filter [] df = Inr df \<and>
   discharge_filter [] df = Inr df"
proof -
  have "apply_filters df spec = Inr df"
    if u: "unrestricted df spec"
      and d: "''SB DATE'' \<in> set (columns df) \<longrightarrow>
        (\<forall>r \<in> set (rows df). \<exists>t. sb_date r = Some t \<and>
           (day_of t = end_date spec \<longrightarrow> t = to_datetime (end_date spec)))"
  proof -
    have "mask_keeps df spec r" if r: "r \<in> set (rows df)" for r
    proof -
      have "date_constraint spec r" if "''SB DATE'' \<in> set (columns df)"
      proof -
        from that d r obtain t where t: "sb_date r = Some t"
          "day_of t = end_date spec \<longrightarrow> t = to_datetime (end_date spec)" by blast
        with u r have "start_date spec \<le> day_of t \<and> day_of t \<le> end_date spec"
          by (auto simp: unrestricted_def)
        with t show ?thesis
          by (auto simp: date_constraint_days)
      qed
      with u show ?thesis by (simp add: mask_keeps_def unrestricted_def)
    qed
    then have "filter (mask_keeps df spec) (rows df) = rows df"
      by (simp add: filter_id_conv)
    then show ?thesis by (simp add: apply_filters_eq)
  qed
  then show ?thesis
    by (simp add: loading_filter_def destination_filter_def discharge_filter_def)
qed

text \<open>Three shipments, one of them at 09:00 on the first day, under the range of the
  data's own days: the dataset comes back unchanged.\<close>

theorem unrestricted_identity_witness:
  "unrestricted gap_df gap_spec \<and>
   list_all (\<lambda>r. \<exists>t. sb_date r = Some t \<and>
      (day_of t \<noteq> end_date gap_spec \<or> t = to_datetime (end_date gap_spec))) (rows gap_df) \<and>
   apply_filters gap_df gap_spec = Inr gap_df"
proof -
  have u: "unrestricted gap_df gap_spec"
    by (simp add: unrestricted_def gap_df_def gap_spec_def example_defs)
  have h: "list_all (\<lambda>r. \<exists>t. sb_date r = Some t \<and>
      (day_of t \<noteq> end_date gap_spec \<or> t = to_datetime (end_date gap_spec))) (rows gap_df)"
    by (simp add: gap_df_def gap_spec_def example_defs)
  from h have "\<forall>r \<in> set (rows gap_df). \<exists>t. sb_date r = Some t \<and>
      (day_of t = end_date gap_spec \<longrightarrow> t = to_datetime (end_date gap_spec))"
    unfolding list_all_iff by blast
  with u unrestricted_identity [of gap_df gap_spec] h show ?thesis by blast
qed

section \<open>Aggregation pipeline: helper lemmas\<close>

lemma set_unique: "set (unique xs) = set xs"
  by (induction xs) auto

lemma distinct_unique: "distinct (unique xs)"
  by (induction xs) (auto simp: set_unique)

lemma length_unique_card: "length (unique xs) = card (set xs)"
  using distinct_card [OF distinct_unique, of xs] by (simp add: set_unique)

lemma set_present_values:
  "set (List.map_filter id (map f rs)) = {p. \<exists>r \<in> set rs. f r = Some p}"
  by (induction rs) (auto split: option.splits)

lemma map_filter_key: "List.map_filter id (map f rs) = List.map_filter f rs"
  by (induction rs) (auto split: option.splits)

lemma map_filter_present:
  assumes "\<And>r. key r \<noteq> None \<Longrightarrow> P r"
  shows "List.map_filter key (filter P rs) = List.map_filter key rs"
  using assms by (induction rs) (auto split: option.splits)

lemma filter_key_present:
  assumes "\<And>r. key r \<noteq> None \<Longrightarrow> P r"
  shows "filter (\<lambda>r. key r = Some k) (filter P rs) = filter (\<lambda>r. key r = Some k) rs"
  using assms by (induction rs) auto

lemma groupby_present:
  assumes "\<And>r. key r \<noteq> None \<Longrightarrow> P r"
  shows "groupby key (filter P rs) = groupby key rs"
proof -
  have a: "List.map_filter key (filter P rs) = List.map_filter key rs"
    by (rule map_filter_present) (rule assms)
  have b: "filter (\<lambda>r. key r = Some k) (filter P rs) = filter (\<lambda>r. key r = Some k) rs" for k
    by (rule filter_key_present) (rule assms)
  show ?thesis unfolding groupby_def a b ..
qed

lemma key2_present: "key2 f g r \<noteq> None \<Longrightarrow> g r \<noteq> None"
  by (auto simp: key2_def split: option.splits)

lemma length_filter_dates:
  "length (filter Q (List.map_filter f rs)) =
   length (filter (\<lambda>r. \<exists>t. f r = Some t \<and> Q t) rs)"
  by (induction rs) (auto split: option.splits)

lemma set_map_filter: "set (List.map_filter f rs) = {t. \<exists>r \<in> set rs. f r = Some t}"
  by (induction rs) (auto split: option.splits)

lemma shipment_counts_eq:
  assumes col: "''SB DATE'' \<in> set (columns df)"
    and some: "\<exists>r \<in> set (rows df). sb_date r \<noteq> None"
  shows "compute_shipment_counts df =
     Inr (map (\<lambda>d. (to_datetime d,
                 length (filter (\<lambda>r. \<exists>t. sb_date r = Some t \<and> day_of t = d) (rows df))))
          [day_of (Min {t. \<exists>r \<in> set (rows df). sb_date r = Some t}) ..
           day_of (Max {t. \<exists>r \<in> set (rows df). sb_date r = Some t})])"
proof -
  let ?ds = "List.map_filter sb_date (rows df)"
  let ?D = "{t. \<exists>r \<in> set (rows df). sb_date r = Some t}"
  have D: "set ?ds = ?D" by (rule set_map_filter)
  from some have "?D \<noteq> {}" by auto
  with D have "?ds \<noteq> []" by auto
  then obtain t ts where ds: "?ds = t # ts" by (cases ?ds) auto
  have "set (t # ts) = ?D" using D ds by simp
  then have lo: "fold min ts t = Min ?D" and hi: "fold max ts t = Max ?D"
    using Min.set_eq_fold [of t ts] Max.set_eq_fold [of t ts] by simp_all
  have cnt: "length (filter (\<lambda>u. day_of u = d) (t # ts)) =
             length (filter (\<lambda>r. \<exists>t. sb_date r = Some t \<and> day_of t = d) (rows df))" for d
    using length_filter_dates [of "\<lambda>u. day_of u = d" sb_date "rows df"] ds by simp
  have "grouper_daily_size (map sb_date (rows df)) =
        map (\<lambda>d. (to_datetime d, length (filter (\<lambda>u. day_of u = d) (t # ts))))
          [day_of (fold min ts t) .. day_of (fold max ts t)]"
    by (simp add: grouper_daily_size_def map_filter_key ds)
  with col show ?thesis
    by (simp only: compute_shipment_counts_def getitem_def if_True bind_err.simps lo hi cnt)
qed

text \<open>An aggregation whose column is absent raises.\<close>

lemma shipment_counts_needs_date_column:
  "''SB DATE'' \<notin> set (columns df) \<Longrightarrow> compute_shipment_counts df = Inl (KeyError ''SB DATE'')"
  by (simp add: compute_shipment_counts_def getitem_def)

lemma fob_metrics_need_fob_column:
  "''FOB'' \<notin> set (columns df) \<Longrightarrow>
     average_fob df = Inl (KeyError ''FOB'') \<and> total_fob df = Inl (KeyError ''FOB'')"
  by (simp add: average_fob_def total_fob_def getitem_def)

lemma present_sum_cell_value:
  "sum_list (List.map_filter id col) = sum_list (map cell_value col)"
  by (induction col) (auto simp: cell_value_def split: option.splits)

lemma series_sum_cell_value: "series_sum col = wrap_int64 (sum_list (map cell_value col))"
  by (simp add: series_sum_def present_sum_cell_value)

text \<open>A sum within the 64-bit range is not changed by the wrap-around.\<close>

lemma wrap_int64_id: "\<bar>x\<bar> < 2 ^ 63 \<Longrightarrow> wrap_int64 x = x"
  unfolding wrap_int64_def by (simp add: mod_pos_pos_trivial)

lemma abs_sum_list_filter_le:
  "\<bar>sum_list (map h (filter P xs))\<bar> \<le> sum_list (map (\<lambda>x. \<bar>h x\<bar>) xs)"
  for h :: "'a \<Rightarrow> int"
proof (induction xs)
  case Nil
  then show ?case by simp
next
  case (Cons x xs)
  have "\<bar>h x + sum_list (map h (filter P xs))\<bar> \<le> \<bar>h x\<bar> + \<bar>sum_list (map h (filter P xs))\<bar>"
    by (rule abs_triangle_ineq)
  with Cons show ?case by (cases "P x") auto
qed

text \<open>Under the exactness condition the sum over any part of the view is the exact sum.\<close>

lemma series_sum_exact:
  assumes "fob_exact df"
  shows "series_sum (map fob (filter P (rows df))) =
         sum_list (map (cell_value \<circ> fob) (filter P (rows df)))"
proof -
  have "\<bar>sum_list (map (cell_value \<circ> fob) (filter P (rows df)))\<bar>
        \<le> sum_list (map (\<lambda>r. \<bar>(cell_value \<circ> fob) r\<bar>) (rows df))"
    by (rule abs_sum_list_filter_le)
  also have "\<dots> < 2 ^ 53" using assms by (simp add: fob_exact_def)
  also have "(2::int) ^ 53 < 2 ^ 63" by simp
  finally have "\<bar>sum_list (map (cell_value \<circ> fob) (filter P (rows df)))\<bar> < 2 ^ 63" .
  then show ?thesis by (simp add: series_sum_cell_value wrap_int64_id comp_def)
qed

lemma total_sum_exact:
  assumes "fob_exact df"
  shows "series_sum (map fob (rows df)) = sum_list (map (cell_value \<circ> fob) (rows df))"
  using series_sum_exact [OF assms, of "\<lambda>r. True"] by simp

lemma sum_list_insort_key:
  "sum_list (map h (insort_key g x xs)) = h x + sum_list (map h xs)"
  for h :: "'a \<Rightarrow> int"
  by (induction xs) auto

lemma sum_list_sort_key: "sum_list (map h (sort_key g xs)) = sum_list (map h xs)"
  for h :: "'a \<Rightarrow> int"
  by (induction xs) (auto simp: sum_list_insort_key)

lemma sum_list_filter_split:
  "sum_list (map h xs) = sum_list (map h (filter P xs)) + sum_list (map h (filter (\<lambda>x. \<not> P x) xs))"
  for h :: "'a \<Rightarrow> int"
  by (induction xs) auto

lemma sum_list_filter_disj:
  "\<forall>x \<in> set xs. \<not> (P x \<and> Q x) \<Longrightarrow>
   sum_list (map h (filter (\<lambda>x. P x \<or> Q x) xs)) =
     sum_list (map h (filter P xs)) + sum_list (map h (filter Q xs))"
  for h :: "'a \<Rightarrow> int"
  by (induction xs) auto

lemma sum_over_groups:
  "distinct ks \<Longrightarrow>
   sum_list (map (\<lambda>k. sum_list (map h (filter (\<lambda>r. key r = Some k) rs))) ks) =
   sum_list (map h (filter (\<lambda>r. key r \<in> Some ` set ks) rs))"
  for h :: "'a \<Rightarrow> int"
proof (induction ks)
  case Nil
  then show ?case by simp
next
  case (Cons k ks)
  have disj: "\<forall>r \<in> set rs. \<not> (key r = Some k \<and> key r \<in> Some ` set ks)"
    using Cons.prems by auto
  have "filter (\<lambda>r. key r \<in> Some ` set (k # ks)) rs =
        filter (\<lambda>r. key r = Some k \<or> key r \<in> Some ` set ks) rs"
    by (rule filter_cong) auto
  with Cons sum_list_filter_disj [OF disj, of h] show ?case by simp
qed

lemma group_sums_total:
  "sum_list (map (\<lambda>k. sum_list (map h (filter (\<lambda>r. key r = Some k) rs)))
      (sort (unique (List.map_filter key rs)))) =
   sum_list (map h (filter (\<lambda>r. key r \<noteq> None) rs))"
  for h :: "'a \<Rightarrow> int" and key :: "'a \<Rightarrow> ('k::linorder) option"
proof -
  have "filter (\<lambda>r. key r \<in> Some ` set (sort (unique (List.map_filter key rs)))) rs =
        filter (\<lambda>r. key r \<noteq> None) rs"
    by (rule filter_cong) (auto simp: set_unique set_map_filter)
  then show ?thesis
    using sum_over_groups [of "sort (unique (List.map_filter key rs))" h key rs]
    by (simp add: distinct_unique)
qed

lemma sum_list_pos:
  "xs \<noteq> [] \<Longrightarrow> \<forall>x \<in> set xs. 0 < x \<Longrightarrow> 0 < sum_list xs" for xs :: "int list"
  by (induction xs) (auto simp: add_pos_nonneg sum_list_nonneg less_imp_le)

lemma sum_list_zero_nonneg:
  "\<forall>x \<in> set xs. 0 < x \<Longrightarrow> sum_list xs = 0 \<Longrightarrow> xs = []" for xs :: "int list"
  using sum_list_pos [of xs] by auto

lemma product_fob_sums_values:
  assumes "fob_exact df"
  shows "map snd (product_fob_sums df) =
   map (\<lambda>k. sum_list (map (cell_value \<circ> fob) (filter (\<lambda>r. hsn_description r = Some k) (rows df))))
     (sort (unique (List.map_filter hsn_description (rows df))))"
  by (simp add: product_fob_sums_def groupby_def series_sum_exact [OF assms] comp_def)

lemma product_fob_sums_total:
  assumes "fob_exact df"
  shows "sum_list (map snd (product_fob_sums df)) =
   sum_list (map (cell_value \<circ> fob) (filter (\<lambda>r. hsn_description r \<noteq> None) (rows df)))"
  unfolding product_fob_sums_values [OF assms] by (rule group_sums_total)

lemma length_product_fob_sums:
  "length (product_fob_sums df) = nunique (map hsn_description (rows df))"
  by (simp add: product_fob_sums_def groupby_def nunique_def map_filter_key)

lemma nlargest_split:
  "sum_list (map snd (nlargest n s)) + sum_list (map snd (drop n (sort_key (\<lambda>(k, v). - v) s))) =
   sum_list (map snd s)"
proof -
  let ?S = "sort_key (\<lambda>(k, v). - v) s"
  have "sum_list (map snd (take n ?S)) + sum_list (map snd (drop n ?S)) =
        sum_list (map snd (take n ?S @ drop n ?S))"
    by (simp only: map_append sum_list_append)
  also have "\<dots> = sum_list (map snd s)"
    by (simp only: append_take_drop_id sum_list_sort_key)
  finally show ?thesis by (simp only: nlargest_def)
qed

lemma product_fob_sums_nonneg:
  assumes "\<forall>r \<in> set (rows df). \<forall>v. fob r = Some v \<longrightarrow> 0 \<le> v" and exact: "fob_exact df"
  shows "\<forall>x \<in> set (map snd (product_fob_sums df)). 0 \<le> x"
proof -
  have "0 \<le> (cell_value \<circ> fob) r" if "r \<in> set (rows df)" for r
    using assms(1) that by (auto simp: cell_value_def split: option.splits)
  then have "0 \<le> sum_list (map (cell_value \<circ> fob) (filter P (rows df)))" for P
    by (intro sum_list_nonneg) auto
  then show ?thesis unfolding product_fob_sums_values [OF exact] by auto
qed

lemma product_fob_sums_pos:
  assumes "\<forall>r \<in> set (rows df). \<exists>v. fob r = Some v \<and> 0 < v" and exact: "fob_exact df"
  shows "\<forall>x \<in> set (map snd (product_fob_sums df)). 0 < x"
proof -
  have pos: "0 < (cell_value \<circ> fob) r" if "r \<in> set (rows df)" for r
    using assms(1) that by (auto simp: cell_value_def)
  have "0 < sum_list (map (cell_value \<circ> fob) (filter (\<lambda>r. hsn_description r = Some k) (rows df)))"
    if "k \<in> set (List.map_filter hsn_description (rows df))" for k
  proof (rule sum_list_pos)
    from that obtain r where "r \<in> set (rows df)" "hsn_description r = Some k"
      by (auto simp: set_map_filter)
    then have "r \<in> set (filter (\<lambda>r. hsn_description r = Some k) (rows df))" by simp
    then show "map (cell_value \<circ> fob) (filter (\<lambda>r. hsn_description r = Some k) (rows df)) \<noteq> []"
      by (metis empty_iff list.set(1) map_is_Nil_conv)
    show "\<forall>x \<in> set (map (cell_value \<circ> fob) (filter (\<lambda>r. hsn_description r = Some k) (rows df))). 0 < x"
      using pos by auto
  qed
  then show ?thesis unfolding product_fob_sums_values [OF exact] by (auto simp: set_unique)
qed

lemma total_fob_split:
  assumes "fob_exact df"
  shows "series_sum (map fob (rows df)) =
   sum_list (map snd (product_fob_sums df)) +
   sum_list (map (cell_value \<circ> fob) (filter (\<lambda>r. \<not> hsn_description r \<noteq> None) (rows df)))"
  unfolding product_fob_sums_total [OF assms] total_sum_exact [OF assms]
  by (rule sum_list_filter_split)

section \<open>Aggregation pipeline: the claims\<close>

text \<open>
  C6. For every view that has the \<^verbatim>\<open>HSN_DESCRIPTION\<close> column, the unique product count is
  the number of distinct product descriptions that occur in the view (a missing cell is not
  a description), and it is 0 when the view has no record.
\<close>

theorem total_products_distinct:
  "''HSN_DESCRIPTION'' \<in> set (columns df) \<longrightarrow>
     compute_total_products df =
       Inr (card {p. \<exists>r \<in> set (rows df). hsn_description r = Some p}) \<and>
     (rows df = [] \<longrightarrow> compute_total_products df = Inr 0)"
  by (auto simp: compute_total_products_def getitem_def nunique_def length_unique_card
      set_present_values)

text \<open>The scenario dataset holds two products; with its records removed it holds none.\<close>

theorem total_products_distinct_witness:
  "''HSN_DESCRIPTION'' \<in> set (columns scenario_df) \<and>
   compute_total_products scenario_df = Inr 2 \<and>
   rows (scenario_df\<lparr>rows := []\<rparr>) = [] \<and>
   compute_total_products (scenario_df\<lparr>rows := []\<rparr>) = Inr 0"
  using total_products_distinct [of scenario_df] total_products_distinct [of "scenario_df\<lparr>rows := []\<rparr>"]
  by (simp add: example_defs compute_total_products_def getitem_def nunique_def)

text \<open>
  C10. Records whose \<^verbatim>\<open>HSN_DESCRIPTION\<close> is missing take part in no product aggregation:
  the top products by FOB, the top products by count, the daily product trend, the top
  products by quantity and the unique product count of a view are those of the view
  without such records. (The keys of these tables are present values by their type.)
\<close>

theorem missing_product_excluded:
  "compute_product_fob (dropna_hsn df) = compute_product_fob df \<and>
   compute_product_counts (dropna_hsn df) = compute_product_counts df \<and>
   compute_product_trends (dropna_hsn df) = compute_product_trends df \<and>
   quantity_data (dropna_hsn df) = quantity_data df \<and>
   compute_total_products (dropna_hsn df) = compute_total_products df"
proof -
  let ?P = "\<lambda>r. hsn_description r \<noteq> None"
  have g1: "groupby hsn_description (filter ?P (rows df)) = groupby hsn_description (rows df)"
    by (rule groupby_present)
  have g2: "groupby (key2 sb_date hsn_description) (filter ?P (rows df)) =
            groupby (key2 sb_date hsn_description) (rows df)"
    by (rule groupby_present) (rule key2_present)
  have c: "List.map_filter id (map hsn_description (filter ?P (rows df))) =
           List.map_filter id (map hsn_description (rows df))"
    unfolding map_filter_key by (rule map_filter_present)
  have cols: "columns (dropna_hsn df) = columns df" and rws: "rows (dropna_hsn df) = filter ?P (rows df)"
    by (simp_all add: dropna_hsn_def)
  have "compute_product_fob (dropna_hsn df) = compute_product_fob df"
    unfolding compute_product_fob_def require_column_def cols rws g1 ..
  moreover have "compute_product_counts (dropna_hsn df) = compute_product_counts df"
    by (simp add: compute_product_counts_def getitem_def value_counts_def cols rws c
        del: not_None_eq)
  moreover have "compute_product_trends (dropna_hsn df) = compute_product_trends df"
    unfolding compute_product_trends_def require_column_def cols rws g2 ..
  moreover have "quantity_data (dropna_hsn df) = quantity_data df"
    unfolding quantity_data_def require_column_def cols rws g1 ..
  moreover have "compute_total_products (dropna_hsn df) = compute_total_products df"
    by (simp add: compute_total_products_def getitem_def nunique_def cols rws c
        del: not_None_eq)
  ultimately show ?thesis by blast
qed

text \<open>A view whose only record has a blank product description has an empty
  top-products table, as the view without that record has.\<close>

theorem missing_product_excluded_witness:
  "compute_product_fob blank_df = Inr [] \<and> compute_product_fob (dropna_hsn blank_df) = Inr [] \<and>
   rows (dropna_hsn blank_df) = []"
  using missing_product_excluded [of blank_df]
  by (simp add: blank_df_def all_columns_def shipment_at_def compute_product_fob_def
      require_column_def groupby_def nlargest_def dropna_hsn_def)

text \<open>
  C9. For every non-empty Filtered View of a dataset with the date column, every record of
  the view has a date, and the daily shipment counts hold one row for each calendar day
  from the day of the earliest date to the day of the latest, in ascending order, labelled
  by the day's midnight, with the number of the view's records on that day: a day without
  shipments is a row with count 0.
\<close>

theorem daily_counts_every_day:
  assumes col: "''SB DATE'' \<in> set (columns df)"
    and view: "apply_filters df spec = Inr view"
    and nonempty: "rows view \<noteq> []"
  shows "(\<forall>r \<in> set (rows view). sb_date r \<noteq> None) \<and>
     compute_shipment_counts view =
       Inr (map (\<lambda>d. (to_datetime d,
                   length (filter (\<lambda>r. \<exists>t. sb_date r = Some t \<and> day_of t = d) (rows view))))
            [day_of (Min {t. \<exists>r \<in> set (rows view). sb_date r = Some t}) ..
             day_of (Max {t. \<exists>r \<in> set (rows view). sb_date r = Some t})])"
proof -
  from view have v: "view = df\<lparr>rows := filter (mask_keeps df spec) (rows df)\<rparr>"
    by (simp add: apply_filters_eq)
  have dated: "sb_date r \<noteq> None" if "r \<in> set (rows view)" for r
    using that col by (auto simp: v mask_keeps_def date_constraint_def split: option.splits)
  from nonempty obtain r where "r \<in> set (rows view)" by (cases "rows view") auto
  with dated have "\<exists>r \<in> set (rows view). sb_date r \<noteq> None" by blast
  moreover from col have "''SB DATE'' \<in> set (columns view)" by (simp add: v)
  ultimately show ?thesis using dated shipment_counts_eq [of view] by blast
qed

text \<open>Shipments on 2024-01-01 (two) and 2024-01-03 (one): the table has the row of
  2024-01-02 with count 0.\<close>

theorem daily_counts_every_day_witness:
  "''SB DATE'' \<in> set (columns gap_df) \<and> apply_filters gap_df gap_spec = Inr gap_df \<and>
   rows gap_df \<noteq> [] \<and>
   compute_shipment_counts gap_df =
     Inr [(to_datetime 19723, 2), (to_datetime 19724, 0), (to_datetime 19725, 1)]"
proof -
  have a: "apply_filters gap_df gap_spec = Inr gap_df"
    by (simp add: apply_filters_eq mask_keeps_def date_constraint_def gap_df_def gap_spec_def
        example_defs)
  have b: "''SB DATE'' \<in> set (columns gap_df)" "rows gap_df \<noteq> []"
    by (simp_all add: gap_df_def all_columns_def)
  have c: "compute_shipment_counts gap_df =
     Inr [(to_datetime 19723, 2), (to_datetime 19724, 0), (to_datetime 19725, 1)]"
    by code_simp
  from daily_counts_every_day [OF b(1) a b(2)] a b c show ?thesis by simp
qed

text \<open>
  C4, as stated, fails: on an empty Filtered View the mean FOB is not zero but undefined
  (\<^verbatim>\<open>NaN\<close>, the mean of no values). Here the scenario dataset is filtered to a range after
  its last day.
\<close>

theorem empty_view_mean_not_zero:
  "apply_filters scenario_df late_spec = Inr empty_view \<and>
   average_fob empty_view = Inr None \<and> average_fob empty_view \<noteq> Inr (Some 0)"
  by (simp add: apply_filters_eq mask_keeps_def date_constraint_def late_spec_def empty_view_def
      average_fob_def getitem_def series_mean_def example_defs)

text \<open>
  C4, amended. For every empty view that has the columns the aggregations read, each of
  the six aggregate tables is empty and the unique product count is 0, the total shipment
  count and the total FOB are 0, the mean FOB is undefined, and none of these computations
  raises.
\<close>

theorem empty_view_aggregates:
  assumes "rows df = []"
    and "{''SB DATE'', ''PORT OF LOADING'', ''HSN_DESCRIPTION'', ''FOB'', ''QUANTITY''}
           \<subseteq> set (columns df)"
  shows "compute_shipment_counts df = Inr [] \<and>
     compute_port_trends df = Inr [] \<and>
     compute_product_fob df = Inr [] \<and>
     compute_product_counts df = Inr [] \<and>
     compute_product_trends df = Inr [] \<and>
     compute_total_products df = Inr 0 \<and>
     quantity_data df = Inr [] \<and>
     total_shipments df = 0 \<and>
     total_fob df = Inr 0 \<and>
     average_fob df = Inr None"
proof -
  have g: "groupby key [] = []" for key :: "shipment \<Rightarrow> ('k::linorder) option"
    by (simp add: groupby_def)
  have n: "nlargest 10 [] = ([] :: (string \<times> int) list)"
    by (simp add: nlargest_def)
  from assms show ?thesis
    by (simp add: compute_shipment_counts_def compute_port_trends_def compute_product_fob_def
        compute_product_counts_def compute_product_trends_def compute_total_products_def
        quantity_data_def total_shipments_def total_fob_def average_fob_def
        getitem_def require_column_def g n grouper_daily_size_def value_counts_def
        nunique_def series_sum_def wrap_int64_def series_mean_def)
qed

text \<open>The empty view with all seven columns.\<close>

theorem empty_view_aggregates_witness:
  "rows empty_view = [] \<and>
   {''SB DATE'', ''PORT OF LOADING'', ''HSN_DESCRIPTION'', ''FOB'', ''QUANTITY''}
      \<subseteq> set (columns empty_view) \<and>
   compute_shipment_counts empty_view = Inr [] \<and>
   compute_product_fob empty_view = Inr [] \<and>
   total_fob empty_view = Inr 0 \<and>
   average_fob empty_view = Inr None"
  using empty_view_aggregates [of empty_view]
  by (simp add: empty_view_def all_columns_def)

text \<open>
  C5, as stated, fails: a view whose only record has a blank product description and FOB 5
  has no distinct product (at most ten), an empty top-products table (sum 0) and total
  FOB 5, so the sums differ.
\<close>

theorem missing_product_breaks_equality:
  "compute_product_fob blank_df = Inr [] \<and> total_fob blank_df = Inr 5 \<and>
   compute_total_products blank_df = Inr 0 \<and>
   \<not> (sum_list (map snd ([] :: (string \<times> int) list)) = 5 \<longleftrightarrow> (0::nat) \<le> 10)"
  by (simp add: blank_df_def all_columns_def shipment_at_def compute_product_fob_def
      total_fob_def compute_total_products_def require_column_def getitem_def groupby_def
      nlargest_def nunique_def series_sum_def wrap_int64_def)

text \<open>
  C5, amended. For every view with the \<^verbatim>\<open>HSN_DESCRIPTION\<close> and \<^verbatim>\<open>FOB\<close> columns whose FOB
  values are integers with absolute values summing to less than \<open>2 ^ 53\<close> (so that the sums
  of the source are exact) the three computations return, and: when no FOB value is
  negative, the sum of the top products by FOB is at most the total FOB of the view; when
  no record lacks its product description and the view has at most ten distinct products,
  the two sums are equal; when every record has a strictly positive FOB and the two sums
  are equal, the view has at most ten distinct products.
\<close>

theorem top_products_fob_bound:
  assumes hsn: "''HSN_DESCRIPTION'' \<in> set (columns df)" and fobc: "''FOB'' \<in> set (columns df)"
    and exact: "fob_exact df"
  shows "\<exists>top total n.
     compute_product_fob df = Inr top \<and> total_fob df = Inr total \<and>
     compute_total_products df = Inr n \<and>
     ((\<forall>r \<in> set (rows df). \<forall>v. fob r = Some v \<longrightarrow> 0 \<le> v) \<longrightarrow>
        sum_list (map snd top) \<le> total) \<and>
     ((\<forall>r \<in> set (rows df). hsn_description r \<noteq> None) \<and> n \<le> 10 \<longrightarrow>
        sum_list (map snd top) = total) \<and>
     ((\<forall>r \<in> set (rows df). \<exists>v. fob r = Some v \<and> 0 < v) \<and> sum_list (map snd top) = total \<longrightarrow>
        n \<le> 10)"
proof -
  let ?tbl = "product_fob_sums df"
  let ?S = "sort_key (\<lambda>(k, v). - v) ?tbl"
  let ?top = "nlargest 10 ?tbl"
  let ?rest = "sum_list (map snd (drop 10 ?S))"
  let ?nulls = "sum_list (map (cell_value \<circ> fob) (filter (\<lambda>r. \<not> hsn_description r \<noteq> None) (rows df)))"
  let ?total = "series_sum (map fob (rows df))"
  let ?n = "nunique (map hsn_description (rows df))"
  have top: "compute_product_fob df = Inr ?top"
    using hsn fobc by (simp add: compute_product_fob_def require_column_def product_fob_sums_def)
  have total: "total_fob df = Inr ?total"
    using fobc by (simp add: total_fob_def getitem_def)
  have n: "compute_total_products df = Inr ?n"
    using hsn by (simp add: compute_total_products_def getitem_def)
  have split: "?total = sum_list (map snd ?top) + ?rest + ?nulls"
    using total_fob_split [OF exact] nlargest_split [of 10 ?tbl] by simp
  have len: "length ?S = ?n"
    by (simp add: length_product_fob_sums)
  have a: "sum_list (map snd ?top) \<le> ?total"
    if nonneg: "\<forall>r \<in> set (rows df). \<forall>v. fob r = Some v \<longrightarrow> 0 \<le> v"
  proof -
    have "\<forall>x \<in> set (map snd ?S). 0 \<le> x"
      using product_fob_sums_nonneg [OF nonneg exact] by simp
    then have "\<forall>x \<in> set (map snd (drop 10 ?S)). 0 \<le> x"
      by (metis in_set_dropD drop_map)
    then have "0 \<le> ?rest" by (intro sum_list_nonneg) auto
    moreover have "0 \<le> ?nulls"
      using nonneg by (intro sum_list_nonneg) (auto simp: cell_value_def split: option.splits)
    ultimately show ?thesis using split by linarith
  qed
  have b: "sum_list (map snd ?top) = ?total"
    if present: "\<forall>r \<in> set (rows df). hsn_description r \<noteq> None" and few: "?n \<le> 10"
  proof -
    from few len have "drop 10 ?S = []" by simp
    moreover from present have "filter (\<lambda>r. \<not> hsn_description r \<noteq> None) (rows df) = []"
      by (simp add: filter_empty_conv)
    ultimately show ?thesis using split by simp
  qed
  have c: "?n \<le> 10"
    if pos: "\<forall>r \<in> set (rows df). \<exists>v. fob r = Some v \<and> 0 < v"
      and eq: "sum_list (map snd ?top) = ?total"
  proof -
    have S_pos: "\<forall>x \<in> set (map snd ?S). 0 < x"
      using product_fob_sums_pos [OF pos exact] by simp
    then have rest_pos: "\<forall>x \<in> set (map snd (drop 10 ?S)). 0 < x"
      by (metis in_set_dropD drop_map)
    then have "0 \<le> ?rest" by (intro sum_list_nonneg) (auto simp: less_imp_le)
    moreover have "0 \<le> ?nulls"
      using pos by (intro sum_list_nonneg) (auto simp: cell_value_def)
    ultimately have "?rest = 0" using split eq by linarith
    with rest_pos have "map snd (drop 10 ?S) = []" by (rule sum_list_zero_nonneg)
    then have "length ?S \<le> 10" by simp
    with len show ?thesis by simp
  qed
  from top total n a b c show ?thesis by blast
qed

text \<open>Eleven products with FOB 1 to 11: the top ten sum to 65, the total is 66. The
  scenario dataset: two products, both sums 300.\<close>

theorem top_products_fob_bound_witness:
  "''HSN_DESCRIPTION'' \<in> set (columns (eleven_products [1, 2, 3, 4, 5, 6, 7, 8, 9, 10, 11])) \<and>
   ''FOB'' \<in> set (columns (eleven_products [1, 2, 3, 4, 5, 6, 7, 8, 9, 10, 11])) \<and>
   list_all (\<lambda>r. hsn_description r \<noteq> None \<and> (\<exists>v. fob r = Some v \<and> 0 < v))
     (rows (eleven_products [1, 2, 3, 4, 5, 6, 7, 8, 9, 10, 11])) \<and>
   compute_product_fob (eleven_products [1, 2, 3, 4, 5, 6, 7, 8, 9, 10, 11]) =
     Inr [(''P11'', 11), (''P10'', 10), (''P09'', 9), (''P08'', 8), (''P07'', 7), (''P06'', 6),
          (''P05'', 5), (''P04'', 4), (''P03'', 3), (''P02'', 2)] \<and>
   total_fob (eleven_products [1, 2, 3, 4, 5, 6, 7, 8, 9, 10, 11]) = Inr 66 \<and>
   compute_total_products (eleven_products [1, 2, 3, 4, 5, 6, 7, 8, 9, 10, 11]) = Inr 11 \<and>
   fob_exact (eleven_products [1, 2, 3, 4, 5, 6, 7, 8, 9, 10, 11]) \<and> fob_exact scenario_df \<and>
   ''HSN_DESCRIPTION'' \<in> set (columns scenario_df) \<and> ''FOB'' \<in> set (columns scenario_df) \<and>
   list_all (\<lambda>r. hsn_description r \<noteq> None \<and> (\<exists>v. fob r = Some v \<and> 0 < v))
     (rows scenario_df) \<and>
   compute_product_fob scenario_df = Inr [(''RICE'', 200), (''TEA'', 100)] \<and>
   total_fob scenario_df = Inr 300 \<and>
   compute_total_products scenario_df = Inr 2"
proof -
  let ?df = "eleven_products [1, 2, 3, 4, 5, 6, 7, 8, 9, 10, 11]"
  have c: "''HSN_DESCRIPTION'' \<in> set (columns ?df)" "''FOB'' \<in> set (columns ?df)"
    by (simp_all add: eleven_products_def all_columns_def)
  have h: "list_all (\<lambda>r. hsn_description r \<noteq> None \<and> (\<exists>v. fob r = Some v \<and> 0 < v)) (rows ?df)"
    by (simp add: eleven_products_def shipment_at_def)
  have t: "compute_product_fob ?df =
     Inr [(''P11'', 11), (''P10'', 10), (''P09'', 9), (''P08'', 8), (''P07'', 7), (''P06'', 6),
          (''P05'', 5), (''P04'', 4), (''P03'', 3), (''P02'', 2)]"
    by code_simp
  have s: "total_fob ?df = Inr 66" by code_simp
  have n: "compute_total_products ?df = Inr 11" by code_simp
  have c': "''HSN_DESCRIPTION'' \<in> set (columns scenario_df)" "''FOB'' \<in> set (columns scenario_df)"
    by (simp_all add: scenario_df_def all_columns_def)
  have h': "list_all (\<lambda>r. hsn_description r \<noteq> None \<and> (\<exists>v. fob r = Some v \<and> 0 < v))
      (rows scenario_df)"
    by (simp add: scenario_df_def shipment_at_def)
  have t': "compute_product_fob scenario_df = Inr [(''RICE'', 200), (''TEA'', 100)]"
    by code_simp
  have s': "total_fob scenario_df = Inr 300" by code_simp
  have n': "compute_total_products scenario_df = Inr 2" by code_simp
  have e: "fob_exact ?df" by code_simp
  have e': "fob_exact scenario_df" by code_simp
  from top_products_fob_bound [OF c e] top_products_fob_bound [OF c' e']
    c h t s n e c' h' t' s' n' e'
  show ?thesis by simp
qed

text \<open>Two more inputs on which the stated claim fails. With a negative FOB on the eleventh
  product the top ten sum to 10 and the total is 9.\<close>

theorem negative_fob_exceeds_total:
  "compute_product_fob (eleven_products [1, 1, 1, 1, 1, 1, 1, 1, 1, 1, - 1]) =
     Inr [(''P01'', 1), (''P02'', 1), (''P03'', 1), (''P04'', 1), (''P05'', 1), (''P06'', 1),
          (''P07'', 1), (''P08'', 1), (''P09'', 1), (''P10'', 1)] \<and>
   total_fob (eleven_products [1, 1, 1, 1, 1, 1, 1, 1, 1, 1, - 1]) = Inr 9 \<and>
   sum_list (map snd [(''P01'', 1), (''P02'', 1), (''P03'', 1), (''P04'', 1), (''P05'', 1),
     (''P06'', 1), (''P07'', 1), (''P08'', 1), (''P09'', 1), (''P10'', 1::int)]) > 9"
  by code_simp

text \<open>With FOB 0 on the eleventh product the sums are equal (10) although the view has
  eleven distinct products.\<close>

theorem zero_fob_eleventh_product:
  "compute_product_fob (eleven_products [1, 1, 1, 1, 1, 1, 1, 1, 1, 1, 0]) =
     Inr [(''P01'', 1), (''P02'', 1), (''P03'', 1), (''P04'', 1), (''P05'', 1), (''P06'', 1),
          (''P07'', 1), (''P08'', 1), (''P09'', 1), (''P10'', 1)] \<and>
   total_fob (eleven_products [1, 1, 1, 1, 1, 1, 1, 1, 1, 1, 0]) = Inr 10 \<and>
   compute_total_products (eleven_products [1, 1, 1, 1, 1, 1, 1, 1, 1, 1, 0]) = Inr 11"
  by code_simp

text \<open>Without the exactness condition the bound fails on an \<^verbatim>\<open>int64\<close> column with no
  negative value: two products of FOB \<open>2 ^ 62\<close> give top values that sum to \<open>2 ^ 63\<close> while
  the total wraps around to \<open>- 2 ^ 63\<close>.\<close>

theorem int64_total_wraps_below_top:
  "compute_product_fob huge_df =
     Inr [(''RICE'', 4611686018427387904), (''TEA'', 4611686018427387904)] \<and>
   total_fob huge_df = Inr (- 9223372036854775808) \<and>
   \<not> fob_exact huge_df"
  by code_simp

end
